theory Spec2Isabelle
  imports Main
begin

section \<open>The server listing endpoint of djchat (server/views.py)\<close>

text \<open>
  The development embeds \<^verbatim>\<open>ServerListViewSet.list\<close>: one handler that turns five query
  parameters into a chain of queryset operations, raises on three kinds of bad input and
  serializes the rows that are left. The handler is the only code of the repository; the
  Django ORM, the request object, the exceptions of Django REST framework and the
  serializer are its collaborators, and each is modelled here by the part of its
  behaviour that the handler relies on.

  Strings are lists of characters with code points below 256. \<open>ServerListViewSet_list\<close>
  is one call of the handler, run against the content the store has at that moment,
  starting from the class attribute \<^verbatim>\<open>queryset = Server.objects.all()\<close> before anything
  has evaluated it. \<open>ServerListViewSet_list_in_process\<close> adds what the class attribute
  keeps from one call to the next.
\<close>

subsection \<open>Data: servers, users, requests\<close>

text \<open>
  A row of the \<^verbatim>\<open>Server\<close> table, with the two relations the handler looks through:
  \<^verbatim>\<open>id\<close> (the primary key), \<^verbatim>\<open>category__name\<close> (the name of the category the foreign
  key points to) and \<^verbatim>\<open>member\<close> (the user ids of the server's rows in the many-to-many
  through table, which is unique on the pair of server and user). The store is the list
  of rows in the order the database returns them.
\<close>

record server =
  server_id :: int
  category_name :: string
  member :: "int list"

text \<open>
  \<^verbatim>\<open>request.user\<close>: Django's \<^verbatim>\<open>AnonymousUser\<close>, or a user with its \<^verbatim>\<open>id\<close>.
\<close>

datatype user = AnonymousUser | User int

fun is_authenticated :: "user \<Rightarrow> bool" where
  "is_authenticated AnonymousUser = False"
| "is_authenticated (User _) = True"

text \<open>
  \<^verbatim>\<open>request.query_params\<close> is a dictionary from parameter names to strings, read with
  \<^verbatim>\<open>.get(name)\<close>, which gives \<^verbatim>\<open>None\<close> for a missing name.
\<close>

record request =
  query_params :: "string \<Rightarrow> string option"
  user :: user

text \<open>
  The exceptions that can leave the handler. \<^verbatim>\<open>AuthenticationFailed\<close> and
  \<^verbatim>\<open>ValidationError\<close> are \<^verbatim>\<open>APIException\<close>s, which the framework renders as 401-class and
  400-class responses. \<^verbatim>\<open>ValueError\<close> is Python's, raised by \<^verbatim>\<open>int\<close>.
  \<^verbatim>\<open>NegativeIndexing\<close> stands for what a queryset raises on a negative slice bound
  ("Negative indexing is not supported.": an \<^verbatim>\<open>AssertionError\<close> in older Django versions, a
  \<^verbatim>\<open>ValueError\<close> in newer ones). The last two are not \<^verbatim>\<open>APIException\<close>s: the framework does
  not turn them into a response of the endpoint.
\<close>

datatype exn =
    AuthenticationFailed
  | ValidationError string
  | ValueError
  | NegativeIndexing

fun unhandled :: "exn \<Rightarrow> bool" where
  "unhandled AuthenticationFailed = False"
| "unhandled (ValidationError _) = False"
| "unhandled ValueError = True"
| "unhandled NegativeIndexing = True"

subsection \<open>Python: truth of a string, \<^verbatim>\<open>int\<close> of a string\<close>

text \<open>\<^verbatim>\<open>if v:\<close> for \<^verbatim>\<open>v\<close> a string or \<^verbatim>\<open>None\<close>: true for a string that is not empty.\<close>

fun truthy :: "string option \<Rightarrow> bool" where
  "truthy None = False"
| "truthy (Some s) = (s \<noteq> [])"

text \<open>
  \<^verbatim>\<open>int(s)\<close> in base ten: white space around the number is dropped (tab, line feed,
  vertical tab, form feed, carriage return, space, and U+0085 and U+00A0), one sign may
  come first, and the digits may be grouped by single underscores between two digits.
  Anything else raises \<^verbatim>\<open>ValueError\<close>, here \<open>None\<close>. Python's integers are unbounded.
\<close>

definition is_space :: "char \<Rightarrow> bool" where
  "is_space c = (of_char c \<in> set [9, 10, 11, 12, 13, 32, 133, 160 :: nat])"

definition is_digit :: "char \<Rightarrow> bool" where
  "is_digit c = (48 \<le> (of_char c :: nat) \<and> (of_char c :: nat) \<le> 57)"

definition digit_val :: "char \<Rightarrow> int" where
  "digit_val c = int (of_char c) - 48"

definition strip :: "string \<Rightarrow> string" where
  "strip s = rev (dropWhile is_space (rev (dropWhile is_space s)))"

fun digits_from :: "int \<Rightarrow> string \<Rightarrow> int option" where
  "digits_from acc [] = Some acc"
| "digits_from acc [c] = (if is_digit c then Some (acc * 10 + digit_val c) else None)"
| "digits_from acc (c # d # cs) =
     (if is_digit c then digits_from (acc * 10 + digit_val c) (d # cs)
      else if c = CHR ''_'' \<and> is_digit d then digits_from acc (d # cs)
      else None)"

fun unsigned :: "string \<Rightarrow> int option" where
  "unsigned [] = None"
| "unsigned (c # cs) = (if is_digit c then digits_from (digit_val c) cs else None)"

fun signed :: "string \<Rightarrow> int option" where
  "signed [] = None"
| "signed (c # cs) =
     (if c = CHR ''-'' then map_option uminus (unsigned cs)
      else if c = CHR ''+'' then unsigned cs
      else unsigned (c # cs))"

definition py_int :: "string \<Rightarrow> int option" where
  "py_int s = signed (strip s)"

subsection \<open>The ORM: a queryset is a query under construction\<close>

text \<open>
  A queryset is lazy: \<^verbatim>\<open>filter\<close>, \<^verbatim>\<open>annotate\<close> and slicing return a new queryset that
  describes a larger query, and only \<^verbatim>\<open>exists()\<close> and the serializer's iteration run it.
  The record holds what the handler can put into the query: the three conditions of the
  \<^verbatim>\<open>WHERE\<close> clause, the membership rows the aggregate \<^verbatim>\<open>Count("member")\<close> ranges over, and
  the upper bound of the slice.
\<close>

datatype member_join = AllMembers | MemberIs int

record queryset =
  where_category_name :: "string option"
  where_member :: "int option"
  where_id :: "int option"
  num_members_over :: "member_join option"
  high_mark :: "nat option"

text \<open>\<^verbatim>\<open>Server.objects.all()\<close>\<close>

definition objects_all :: queryset where
  "objects_all =
     \<lparr>where_category_name = None, where_member = None, where_id = None,
      num_members_over = None, high_mark = None\<rparr>"

text \<open>\<^verbatim>\<open>.filter(category__name=category)\<close>\<close>

definition filter_category_name :: "string \<Rightarrow> queryset \<Rightarrow> queryset" where
  "filter_category_name c q = q\<lparr>where_category_name := Some c\<rparr>"

text \<open>
  \<^verbatim>\<open>.filter(member=user_id)\<close>: an inner join with the membership rows of the server,
  kept where the row's user is \<^verbatim>\<open>user_id\<close>.
\<close>

definition filter_member :: "int \<Rightarrow> queryset \<Rightarrow> queryset" where
  "filter_member u q = q\<lparr>where_member := Some u\<rparr>"

text \<open>
  \<^verbatim>\<open>.annotate(num_members=Count("member"))\<close>. Django computes an annotation over the
  state of the query at the point where it is requested: the aggregate reuses the join
  with the membership rows that an earlier \<^verbatim>\<open>filter(member=...)\<close> has put into the query,
  with that filter's condition on it, and only a query without such a join gets a new
  one over all the membership rows of the server (Django's documentation, Aggregation,
  "Order of annotate() and filter() clauses").
\<close>

definition annotate_num_members :: "queryset \<Rightarrow> queryset" where
  "annotate_num_members q =
     q\<lparr>num_members_over :=
         Some (case where_member q of None \<Rightarrow> AllMembers | Some u \<Rightarrow> MemberIs u)\<rparr>"

text \<open>
  \<^verbatim>\<open>.filter(id=by_serverid)\<close> with a string: the integer field prepares the value with
  \<^verbatim>\<open>int\<close> when the filter is built, and the \<^verbatim>\<open>ValueError\<close> of a string that is no integer
  leaves \<^verbatim>\<open>filter\<close>.
\<close>

definition filter_id :: "string \<Rightarrow> queryset \<Rightarrow> exn + queryset" where
  "filter_id v q =
     (case py_int v of
        None \<Rightarrow> Inl ValueError
      | Some i \<Rightarrow> Inr (q\<lparr>where_id := Some i\<rparr>))"

text \<open>
  \<^verbatim>\<open>queryset[:k]\<close>: a negative bound is refused, any other bounds the result. The bound
  becomes the \<^verbatim>\<open>LIMIT\<close> of the query; a bound beyond the integers of the database, which
  the database refuses when the query runs, is outside the model.
\<close>

definition slice_to :: "int \<Rightarrow> queryset \<Rightarrow> exn + queryset" where
  "slice_to k q = (if k < 0 then Inl NegativeIndexing else Inr (q\<lparr>high_mark := Some (nat k)\<rparr>))"

text \<open>
  Running the query. A server is selected when it meets every condition of the
  \<^verbatim>\<open>WHERE\<close> clause; a selected server carries \<^verbatim>\<open>num_members\<close> when the query is annotated,
  the number of membership rows in the join the aggregate ranges over; the slice keeps
  the first rows.
\<close>

definition selected :: "queryset \<Rightarrow> server \<Rightarrow> bool" where
  "selected q s =
     ((case where_category_name q of None \<Rightarrow> True | Some c \<Rightarrow> category_name s = c) \<and>
      (case where_member q of None \<Rightarrow> True | Some u \<Rightarrow> u \<in> set (member s)) \<and>
      (case where_id q of None \<Rightarrow> True | Some i \<Rightarrow> server_id s = i))"

fun joined :: "member_join \<Rightarrow> server \<Rightarrow> int list" where
  "joined AllMembers s = member s"
| "joined (MemberIs u) s = filter (\<lambda>m. m = u) (member s)"

record row =
  obj :: server
  num_members :: "nat option"

definition annotated :: "queryset \<Rightarrow> server \<Rightarrow> row" where
  "annotated q s =
     \<lparr>obj = s, num_members = map_option (\<lambda>j. length (joined j s)) (num_members_over q)\<rparr>"

definition fetch :: "server list \<Rightarrow> queryset \<Rightarrow> row list" where
  "fetch db q =
     (let rows = map (annotated q) (filter (selected q) db)
      in case high_mark q of None \<Rightarrow> rows | Some n \<Rightarrow> take n rows)"

text \<open>\<^verbatim>\<open>.exists()\<close>\<close>

definition qs_exists :: "server list \<Rightarrow> queryset \<Rightarrow> bool" where
  "qs_exists db q = (fetch db q \<noteq> [])"

subsection \<open>The serializer\<close>

record server_data =
  base_fields :: server
  data_num_members :: "nat option"

text \<open>
  Modelled from the spec: \<^verbatim>\<open>ServerSerializer\<close> (module \<^verbatim>\<open>serializer\<close> is not among the
  sources). The spec has it translate a row and the context flag \<^verbatim>\<open>num_members\<close> into an
  output object that includes the base fields of the server and, when requested, the
  integer \<^verbatim>\<open>num_members\<close> of the row.
\<close>

definition ServerSerializer :: "bool \<Rightarrow> row \<Rightarrow> server_data" where
  "ServerSerializer context_num_members r =
     \<lparr>base_fields = obj r,
      data_num_members = (if context_num_members then num_members r else None)\<rparr>"

subsection \<open>The handler\<close>

text \<open>
  \<^verbatim>\<open>ServerListViewSet.list\<close>, in the order of the source: read the five parameters,
  filter by category, filter by user (or raise), annotate, filter by id (or raise),
  slice, serialize. \<open>Inl\<close> is the exception that leaves the handler, \<open>Inr\<close> the data of the
  response. In the branch of \<^verbatim>\<open>by_user\<close> the case distinction on the user is the test
  \<^verbatim>\<open>request.user.is_authenticated\<close> together with the read of \<^verbatim>\<open>request.user.id\<close>. The
  \<^verbatim>\<open>try\<close> block around the filter by id catches \<^verbatim>\<open>ValueError\<close> only.
\<close>

definition ServerListViewSet_list :: "server list \<Rightarrow> request \<Rightarrow> exn + server_data list" where
  "ServerListViewSet_list db request =
     (let category = query_params request ''category'';
          qty = query_params request ''qty'';
          by_user = (query_params request ''by_user'' = Some ''true'');
          by_serverid = query_params request ''by_serverid'';
          with_num_members = (query_params request ''with_num_members'' = Some ''true'');
          queryset1 =
            (case category of
               None \<Rightarrow> objects_all
             | Some c \<Rightarrow> if truthy category then filter_category_name c objects_all
                         else objects_all)
      in
      case (if by_user then
              (case user request of
                 User user_id \<Rightarrow> Inr (filter_member user_id queryset1)
               | AnonymousUser \<Rightarrow> Inl AuthenticationFailed)
            else Inr queryset1) of
        Inl e \<Rightarrow> Inl e
      | Inr queryset2 \<Rightarrow>
          (let queryset3 =
                 (if with_num_members then annotate_num_members queryset2 else queryset2)
           in
           case (case by_serverid of
                   None \<Rightarrow> Inr queryset3
                 | Some v \<Rightarrow>
                     if truthy by_serverid then
                       (if \<not> is_authenticated (user request) then Inl AuthenticationFailed
                        else
                          (case filter_id v queryset3 of
                             Inl ValueError \<Rightarrow> Inl (ValidationError ''Server value error'')
                           | Inl e \<Rightarrow> Inl e
                           | Inr queryset4 \<Rightarrow>
                               if \<not> qs_exists db queryset4 then
                                 Inl (ValidationError (''Could not find server with ID '' @ v))
                               else Inr queryset4))
                     else Inr queryset3) of
             Inl e \<Rightarrow> Inl e
           | Inr queryset5 \<Rightarrow>
               (case (case qty of
                        None \<Rightarrow> Inr queryset5
                      | Some n \<Rightarrow>
                          if truthy qty then
                            (case py_int n of
                               None \<Rightarrow> Inl ValueError
                             | Some k \<Rightarrow> slice_to k queryset5)
                          else Inr queryset5) of
                  Inl e \<Rightarrow> Inl e
                | Inr queryset6 \<Rightarrow>
                    Inr (map (ServerSerializer with_num_members) (fetch db queryset6)))))"


subsection \<open>The class attribute across requests\<close>

text \<open>
  \<^verbatim>\<open>queryset = Server.objects.all()\<close> is an attribute of the class: one queryset object,
  shared by all the requests that a process serves. A queryset keeps the rows of its first
  evaluation (its result cache) and answers from them afterwards. \<^verbatim>\<open>filter\<close> and \<^verbatim>\<open>annotate\<close>
  return a new queryset without rows, so a request that applies one of them queries the
  store. A request that applies none works on the shared object itself.
\<close>

definition uses_class_queryset :: "request \<Rightarrow> bool" where
  "uses_class_queryset request =
     (\<not> truthy (query_params request ''category'') \<and>
      query_params request ''by_user'' \<noteq> Some ''true'' \<and>
      query_params request ''with_num_members'' \<noteq> Some ''true'' \<and>
      \<not> truthy (query_params request ''by_serverid''))"

text \<open>
  The handler in a process whose shared queryset holds \<open>result_cache\<close>: \<open>None\<close> before its
  first evaluation, the rows of that evaluation afterwards. The result is the response
  together with the cache the call leaves.
  \<^item> On the shared object with rows, the serializer iterates those rows and a slice is a
    slice of the list of those rows: the handler runs on the rows and not on the store.
  \<^item> On the shared object without rows, the serializer's iteration evaluates it, and the
    rows stay; a slice of it is a new queryset, and the shared object stays as it is.
  \<^item> Any other request runs on new querysets, and the shared object stays as it is.
\<close>

definition ServerListViewSet_list_in_process ::
  "server list option \<Rightarrow> server list \<Rightarrow> request \<Rightarrow>
     (exn + server_data list) \<times> server list option" where
  "ServerListViewSet_list_in_process result_cache db request =
     (if uses_class_queryset request then
        (case result_cache of
           Some rows \<Rightarrow> (ServerListViewSet_list rows request, Some rows)
         | None \<Rightarrow>
             (ServerListViewSet_list db request,
              if truthy (query_params request ''qty'') then None else Some db))
      else (ServerListViewSet_list db request, result_cache))"

subsection \<open>Two notions used to state the properties\<close>

text \<open>The same request with the parameter \<^verbatim>\<open>qty\<close> left out.\<close>

definition without_qty :: "request \<Rightarrow> request" where
  "without_qty request = request\<lparr>query_params := (query_params request)(''qty'' := None)\<rparr>"

text \<open>
  The queryset the handler has built when it reaches the quantity restriction, or the
  exception it has raised before: the handler's text up to that point. Lemma
  \<open>handler_phases\<close> below proves that the handler is this followed by the slice and the
  serializer.
\<close>

definition filtered_queryset :: "server list \<Rightarrow> request \<Rightarrow> exn + queryset" where
  "filtered_queryset db request =
     (let category = query_params request ''category'';
          by_user = (query_params request ''by_user'' = Some ''true'');
          by_serverid = query_params request ''by_serverid'';
          with_num_members = (query_params request ''with_num_members'' = Some ''true'');
          queryset1 =
            (case category of
               None \<Rightarrow> objects_all
             | Some c \<Rightarrow> if truthy category then filter_category_name c objects_all
                         else objects_all)
      in
      case (if by_user then
              (case user request of
                 User user_id \<Rightarrow> Inr (filter_member user_id queryset1)
               | AnonymousUser \<Rightarrow> Inl AuthenticationFailed)
            else Inr queryset1) of
        Inl e \<Rightarrow> Inl e
      | Inr queryset2 \<Rightarrow>
          (let queryset3 =
                 (if with_num_members then annotate_num_members queryset2 else queryset2)
           in
           case by_serverid of
             None \<Rightarrow> Inr queryset3
           | Some v \<Rightarrow>
               if truthy by_serverid then
                 (if \<not> is_authenticated (user request) then Inl AuthenticationFailed
                  else
                    (case filter_id v queryset3 of
                       Inl ValueError \<Rightarrow> Inl (ValidationError ''Server value error'')
                     | Inl e \<Rightarrow> Inl e
                     | Inr queryset4 \<Rightarrow>
                         if \<not> qs_exists db queryset4 then
                           Inl (ValidationError (''Could not find server with ID '' @ v))
                         else Inr queryset4))
               else Inr queryset3))"


section \<open>Properties\<close>

subsection \<open>Auxiliary facts\<close>

lemma py_int_Nil: "py_int [] = None"
  by (simp add: py_int_def strip_def)

lemma py_int_truthy: "py_int v = Some i \<Longrightarrow> v \<noteq> []"
  by (auto simp: py_int_Nil)

lemma not_authenticated_iff: "\<not> is_authenticated u \<longleftrightarrow> u = AnonymousUser"
  by (cases u) simp_all

lemma sum_case_assoc:
  "(case (case x of Inl e \<Rightarrow> Inl e | Inr a \<Rightarrow> f a) of Inl e \<Rightarrow> Inl e | Inr b \<Rightarrow> g b) =
   (case x of Inl e \<Rightarrow> Inl e | Inr a \<Rightarrow> (case f a of Inl e \<Rightarrow> Inl e | Inr b \<Rightarrow> g b))"
  by (cases x) simp_all

lemma handler_phases:
  "ServerListViewSet_list db request =
     (case filtered_queryset db request of
        Inl e \<Rightarrow> Inl e
      | Inr queryset5 \<Rightarrow>
          (case (case query_params request ''qty'' of
                   None \<Rightarrow> Inr queryset5
                 | Some n \<Rightarrow>
                     if truthy (query_params request ''qty'') then
                       (case py_int n of
                          None \<Rightarrow> Inl ValueError
                        | Some k \<Rightarrow> slice_to k queryset5)
                     else Inr queryset5) of
             Inl e \<Rightarrow> Inl e
           | Inr queryset6 \<Rightarrow>
               Inr (map (ServerSerializer (query_params request ''with_num_members'' = Some ''true''))
                     (fetch db queryset6))))"
  unfolding ServerListViewSet_list_def filtered_queryset_def Let_def sum_case_assoc
  by (rule refl)

lemma user_without_qty: "user (without_qty request) = user request"
  by (simp add: without_qty_def)

lemma params_without_qty:
  "k \<noteq> ''qty'' \<Longrightarrow> query_params (without_qty request) k = query_params request k"
  by (simp add: without_qty_def)

lemma qty_without_qty: "query_params (without_qty request) ''qty'' = None"
  by (simp add: without_qty_def)

lemma filtered_without_qty:
  "filtered_queryset db (without_qty request) = filtered_queryset db request"
  unfolding filtered_queryset_def Let_def
  by (simp add: user_without_qty params_without_qty
           cong: sum.case_cong option.case_cong user.case_cong if_cong)

lemma fetch_where_id_absent:
  assumes "i \<notin> server_id ` set db" and "where_id q = Some i"
  shows "fetch db q = []"
proof -
  have "filter (selected q) db = []"
    using assms by (auto simp: filter_empty_conv selected_def)
  then show ?thesis
    by (simp add: fetch_def split: option.split)
qed


lemmas eval_defs =
  ServerListViewSet_list_def Let_def py_int_def strip_def is_space_def is_digit_def
  digit_val_def objects_all_def filter_category_name_def filter_member_def
  annotate_num_members_def filter_id_def slice_to_def fetch_def selected_def
  annotated_def qs_exists_def ServerSerializer_def without_qty_def

subsection \<open>Authentication\<close>

text \<open>
  The flag \<^verbatim>\<open>by_user\<close> is the comparison of the parameter with \<^verbatim>\<open>"true"\<close>, so a request
  that supplies \<^verbatim>\<open>by_user=false\<close> is not a request by user: an anonymous client gets the
  list, and no authentication error.
\<close>

theorem by_user_false_anonymous_succeeds:
  "query_params \<lparr>query_params = [''by_user'' \<mapsto> ''false''], user = AnonymousUser\<rparr> ''by_user''
     \<noteq> None \<and>
   \<not> is_authenticated (user \<lparr>query_params = [''by_user'' \<mapsto> ''false''], user = AnonymousUser\<rparr>) \<and>
   ServerListViewSet_list
     [\<lparr>server_id = 1, category_name = ''gaming'', member = [1]\<rparr>]
     \<lparr>query_params = [''by_user'' \<mapsto> ''false''], user = AnonymousUser\<rparr> =
   Inr [\<lparr>base_fields = \<lparr>server_id = 1, category_name = ''gaming'', member = [1]\<rparr>,
         data_num_members = None\<rparr>]"
  by (simp add: eval_defs)

text \<open>
  Claim C1, as amended: for every request in which \<^verbatim>\<open>by_user\<close> is supplied as \<^verbatim>\<open>"true"\<close> or
  \<^verbatim>\<open>by_serverid\<close> is supplied with a value that is not empty, and the requesting identity is
  not authenticated, the handler fails with the authentication error, whatever the store
  and the other parameters are.
\<close>

theorem authentication_required:
  assumes "query_params request ''by_user'' = Some ''true'' \<or>
           truthy (query_params request ''by_serverid'')"
      and "\<not> is_authenticated (user request)"
  shows "ServerListViewSet_list db request = Inl AuthenticationFailed"
proof -
  from assms(2) have anon: "user request = AnonymousUser"
    by (simp add: not_authenticated_iff)
  show ?thesis
  proof (cases "query_params request ''by_user'' = Some ''true''")
    case True
    then show ?thesis
      by (simp add: ServerListViewSet_list_def Let_def anon)
  next
    case False
    with assms(1) obtain v where "query_params request ''by_serverid'' = Some v" "v \<noteq> []"
      by (cases "query_params request ''by_serverid''") auto
    with False show ?thesis
      by (simp add: ServerListViewSet_list_def Let_def anon)
  qed
qed

theorem authentication_required_witness:
  "truthy (query_params \<lparr>query_params = [''by_serverid'' \<mapsto> ''1'', ''qty'' \<mapsto> ''x''],
                          user = AnonymousUser\<rparr> ''by_serverid'') \<and>
   ServerListViewSet_list
     [\<lparr>server_id = 1, category_name = ''gaming'', member = [1]\<rparr>]
     \<lparr>query_params = [''by_serverid'' \<mapsto> ''1'', ''qty'' \<mapsto> ''x''], user = AnonymousUser\<rparr> =
   Inl AuthenticationFailed"
proof -
  let ?r = "\<lparr>query_params = [''by_serverid'' \<mapsto> ''1'', ''qty'' \<mapsto> ''x''], user = AnonymousUser\<rparr>"
  have h1: "query_params ?r ''by_user'' = Some ''true'' \<or> truthy (query_params ?r ''by_serverid'')"
    by simp
  have h2: "\<not> is_authenticated (user ?r)"
    by simp
  from authentication_required [OF h1 h2] show ?thesis
    by simp
qed

subsection \<open>Validation of \<^verbatim>\<open>by_serverid\<close>\<close>

text \<open>
  The authentication check of \<^verbatim>\<open>by_serverid\<close> comes before the filter: an anonymous
  request with a value that is no integer fails with the authentication error, which is
  no validation error.
\<close>

theorem malformed_serverid_anonymous:
  "py_int ''abc'' = None \<and>
   ServerListViewSet_list
     [\<lparr>server_id = 1, category_name = ''gaming'', member = [1]\<rparr>]
     \<lparr>query_params = [''by_serverid'' \<mapsto> ''abc''], user = AnonymousUser\<rparr> =
   Inl AuthenticationFailed"
  by (simp add: eval_defs)

text \<open>
  Claim C4, as amended: for every request by an authenticated identity in which
  \<^verbatim>\<open>by_serverid\<close> is supplied with a value that is not empty and that \<^verbatim>\<open>int\<close> rejects, the
  handler fails with the validation error "Server value error", and with no other error.
\<close>

theorem malformed_serverid_validation_error:
  assumes "is_authenticated (user request)"
      and "query_params request ''by_serverid'' = Some v" and "v \<noteq> []"
      and "py_int v = None"
  shows "ServerListViewSet_list db request = Inl (ValidationError ''Server value error'')"
proof -
  from assms(1) obtain uid where u: "user request = User uid"
    by (cases "user request") simp_all
  show ?thesis
    using assms(2-4) u
    by (simp add: ServerListViewSet_list_def Let_def filter_id_def)
qed

theorem malformed_serverid_validation_error_witness:
  "py_int ''1.5'' = None \<and>
   ServerListViewSet_list
     [\<lparr>server_id = 1, category_name = ''gaming'', member = [7]\<rparr>]
     \<lparr>query_params = [''by_serverid'' \<mapsto> ''1.5'', ''by_user'' \<mapsto> ''true''], user = User 7\<rparr> =
   Inl (ValidationError ''Server value error'')"
proof -
  let ?r = "\<lparr>query_params = [''by_serverid'' \<mapsto> ''1.5'', ''by_user'' \<mapsto> ''true''], user = User 7\<rparr>"
  have h1: "is_authenticated (user ?r)" by simp
  have h2: "query_params ?r ''by_serverid'' = Some ''1.5''" by simp
  have h3: "''1.5'' \<noteq> []" by simp
  have h4: "py_int ''1.5'' = None" by (simp add: eval_defs)
  from malformed_serverid_validation_error [OF h1 h2 h3 h4] h4 show ?thesis
    by simp
qed

text \<open>
  In the same way an anonymous request for an id that no server has fails with the
  authentication error.
\<close>

theorem unknown_serverid_anonymous:
  "py_int ''7'' = Some 7 \<and>
   7 \<notin> server_id ` set [\<lparr>server_id = 1, category_name = ''gaming'', member = [1]\<rparr>] \<and>
   ServerListViewSet_list
     [\<lparr>server_id = 1, category_name = ''gaming'', member = [1]\<rparr>]
     \<lparr>query_params = [''by_serverid'' \<mapsto> ''7''], user = AnonymousUser\<rparr> =
   Inl AuthenticationFailed"
  by (simp add: eval_defs)

text \<open>
  Claim C5, as amended: for every request by an authenticated identity in which
  \<^verbatim>\<open>by_serverid\<close> is supplied with a numeric id for which no server exists in the store, the
  handler fails with the validation error whose message is "Could not find server with ID "
  followed by the value of the parameter.
\<close>

theorem unknown_serverid_validation_error:
  assumes "is_authenticated (user request)"
      and "query_params request ''by_serverid'' = Some v"
      and "py_int v = Some i"
      and "i \<notin> server_id ` set db"
  shows "ServerListViewSet_list db request =
           Inl (ValidationError (''Could not find server with ID '' @ v))"
proof -
  from assms(1) obtain uid where u: "user request = User uid"
    by (cases "user request") simp_all
  have v: "v \<noteq> []" using assms(3) by (rule py_int_truthy)
  have nx: "\<not> qs_exists db (q\<lparr>where_id := Some i\<rparr>)" for q
    using fetch_where_id_absent [OF assms(4), of "q\<lparr>where_id := Some i\<rparr>"]
    by (simp add: qs_exists_def)
  show ?thesis
    using assms(2,3) u v nx
    by (simp add: ServerListViewSet_list_def Let_def filter_id_def)
qed

theorem unknown_serverid_validation_error_witness:
  "py_int ''42'' = Some 42 \<and>
   ServerListViewSet_list
     [\<lparr>server_id = 1, category_name = ''gaming'', member = [7]\<rparr>]
     \<lparr>query_params = [''by_serverid'' \<mapsto> ''42''], user = User 7\<rparr> =
   Inl (ValidationError ''Could not find server with ID 42'')"
proof -
  let ?r = "\<lparr>query_params = [''by_serverid'' \<mapsto> ''42''], user = User 7\<rparr>"
  let ?db = "[\<lparr>server_id = 1, category_name = ''gaming'', member = [7]\<rparr>]"
  have h1: "is_authenticated (user ?r)" by simp
  have h2: "query_params ?r ''by_serverid'' = Some ''42''" by simp
  have h3: "py_int ''42'' = Some 42" by (simp add: eval_defs)
  have h4: "42 \<notin> server_id ` set ?db" by simp
  from unknown_serverid_validation_error [OF h1 h2 h3 h4] h3 show ?thesis
    by simp
qed


subsection \<open>What the filters leave\<close>

lemmas queryset_ops =
  objects_all_def filter_category_name_def filter_member_def annotate_num_members_def
  filter_id_def

lemma filtered_queryset_fields:
  assumes "filtered_queryset db request = Inr q"
  shows "high_mark q = None"
    and "where_category_name q =
           (if truthy (query_params request ''category'')
            then query_params request ''category'' else None)"
    and "where_member q =
           (if query_params request ''by_user'' = Some ''true''
            then (case user request of User uid \<Rightarrow> Some uid | AnonymousUser \<Rightarrow> None)
            else None)"
    and "where_id q =
           (if truthy (query_params request ''by_serverid'')
            then (case query_params request ''by_serverid'' of Some v \<Rightarrow> py_int v | None \<Rightarrow> None)
            else None)"
    and "num_members_over q =
           (if query_params request ''with_num_members'' = Some ''true''
            then Some (case where_member q of None \<Rightarrow> AllMembers | Some u \<Rightarrow> MemberIs u)
            else None)"
  using assms
  by (auto simp: filtered_queryset_def Let_def queryset_ops
           split: if_splits option.splits user.splits sum.splits exn.splits)

lemma fetch_high_mark:
  assumes "high_mark q = None"
  shows "fetch db (q\<lparr>high_mark := Some m\<rparr>) = take m (fetch db q)"
proof -
  have "selected (q\<lparr>high_mark := Some m\<rparr>) = selected q"
    by (simp add: fun_eq_iff selected_def)
  moreover have "annotated (q\<lparr>high_mark := Some m\<rparr>) = annotated q"
    by (simp add: fun_eq_iff annotated_def)
  ultimately show ?thesis
    using assms by (simp add: fetch_def)
qed

lemma fetch_unsliced:
  assumes "high_mark q = None"
  shows "fetch db q = map (annotated q) (filter (selected q) db)"
  using assms by (simp add: fetch_def)

subsection \<open>The handler after the filters\<close>

lemma handler_raises_early:
  assumes "filtered_queryset db request = Inl e"
  shows "ServerListViewSet_list db request = Inl e"
  using assms by (simp add: handler_phases)

lemma handler_succeeds_filtered:
  assumes "ServerListViewSet_list db request = Inr data"
  obtains q where "filtered_queryset db request = Inr q"
  using assms by (cases "filtered_queryset db request") (simp_all add: handler_phases)

lemma handler_no_qty:
  assumes "filtered_queryset db request = Inr q"
      and "\<not> truthy (query_params request ''qty'')"
  shows "ServerListViewSet_list db request =
           Inr (map (ServerSerializer (query_params request ''with_num_members'' = Some ''true''))
                 (fetch db q))"
  using assms by (cases "query_params request ''qty''") (simp_all add: handler_phases)

lemma handler_qty_value_error:
  assumes "filtered_queryset db request = Inr q"
      and "query_params request ''qty'' = Some n" and "n \<noteq> []" and "py_int n = None"
  shows "ServerListViewSet_list db request = Inl ValueError"
  using assms by (simp add: handler_phases)

lemma handler_qty_negative:
  assumes "filtered_queryset db request = Inr q"
      and "query_params request ''qty'' = Some n" and "py_int n = Some k" and "k < 0"
  shows "ServerListViewSet_list db request = Inl NegativeIndexing"
  using assms py_int_truthy [of n k] by (simp add: handler_phases slice_to_def)

lemma handler_qty:
  assumes "filtered_queryset db request = Inr q"
      and "query_params request ''qty'' = Some n" and "py_int n = Some k" and "0 \<le> k"
  shows "ServerListViewSet_list db request =
           Inr (map (ServerSerializer (query_params request ''with_num_members'' = Some ''true''))
                 (take (nat k) (fetch db q)))"
proof -
  have "high_mark q = None"
    using assms(1) by (rule filtered_queryset_fields)
  then show ?thesis
    using assms py_int_truthy [of n k]
    by (simp add: handler_phases slice_to_def fetch_high_mark)
qed

lemma handler_without_qty:
  assumes "filtered_queryset db request = Inr q"
  shows "ServerListViewSet_list db (without_qty request) =
           Inr (map (ServerSerializer (query_params request ''with_num_members'' = Some ''true''))
                 (fetch db q))"
proof -
  have "filtered_queryset db (without_qty request) = Inr q"
    using assms by (simp add: filtered_without_qty)
  moreover have "\<not> truthy (query_params (without_qty request) ''qty'')"
    by (simp add: qty_without_qty)
  ultimately show ?thesis
    using handler_no_qty [of db "without_qty request" q]
    by (simp add: params_without_qty)
qed

lemma handler_result_prefix:
  assumes "ServerListViewSet_list db request = Inr data"
      and "filtered_queryset db request = Inr q"
  shows "\<exists>m. data =
           take m (map (ServerSerializer (query_params request ''with_num_members'' = Some ''true''))
                    (map (annotated q) (filter (selected q) db)))"
proof -
  define ser where "ser = ServerSerializer (query_params request ''with_num_members'' = Some ''true'')"
  define rows where "rows = map (annotated q) (filter (selected q) db)"
  have hm: "high_mark q = None"
    using assms(2) by (rule filtered_queryset_fields)
  have rows: "fetch db q = rows"
    unfolding rows_def using hm by (rule fetch_unsliced)
  have "\<exists>m. data = take m (map ser rows)"
  proof (cases "truthy (query_params request ''qty'')")
    case False
    with assms(2) have "ServerListViewSet_list db request = Inr (map ser (fetch db q))"
      unfolding ser_def by (rule handler_no_qty)
    with assms(1) have "data = map ser rows"
      by (simp only: rows sum.inject)
    then have "data = take (length (map ser rows)) (map ser rows)"
      by (simp only: take_all order_refl)
    then show ?thesis ..
  next
    case True
    then obtain n where n: "query_params request ''qty'' = Some n" "n \<noteq> []"
      by (cases "query_params request ''qty''") auto
    show ?thesis
    proof (cases "py_int n")
      case None
      with assms(2) n have "ServerListViewSet_list db request = Inl ValueError"
        by (rule handler_qty_value_error)
      with assms(1) show ?thesis
        by (simp only: sum.distinct)
    next
      case (Some k)
      show ?thesis
      proof (cases "k < 0")
        case True
        with assms(2) n(1) Some have "ServerListViewSet_list db request = Inl NegativeIndexing"
          by (rule handler_qty_negative)
        with assms(1) show ?thesis
          by (simp only: sum.distinct)
      next
        case False
        then have "0 \<le> k" by simp
        with assms(2) n(1) Some
        have "ServerListViewSet_list db request = Inr (map ser (take (nat k) (fetch db q)))"
          unfolding ser_def by (rule handler_qty)
        with assms(1) have "data = map ser (take (nat k) rows)"
          by (simp only: rows sum.inject)
        then have "data = take (nat k) (map ser rows)"
          by (simp only: take_map)
        then show ?thesis ..
      qed
    qed
  qed
  then show ?thesis
    unfolding ser_def rows_def .
qed

lemma filtered_queryset_exists:
  assumes "filtered_queryset db request = Inr q"
      and "truthy (query_params request ''by_serverid'')"
  shows "fetch db q \<noteq> []"
  using assms
  by (auto simp: filtered_queryset_def Let_def qs_exists_def
           split: if_splits option.splits user.splits sum.splits exn.splits)

lemma filtered_queryset_not_found:
  assumes "filtered_queryset db request = Inl e"
      and "is_authenticated (user request)"
      and "query_params request ''by_serverid'' = Some v" and "py_int v = Some i"
  shows "e = ValidationError (''Could not find server with ID '' @ v)"
proof -
  from assms(2) obtain uid where u: "user request = User uid"
    by (cases "user request") simp_all
  have v: "v \<noteq> []"
    using assms(4) by (rule py_int_truthy)
  show ?thesis
    using assms(1)
    by (simp add: filtered_queryset_def Let_def filter_id_def u v assms(3,4) split: if_splits)
qed

lemma no_rows_for_excluded:
  assumes "distinct (map server_id db)" and "s \<in> set db"
      and "where_id q = Some (server_id s)" and "\<not> selected q s"
  shows "fetch db q = []"
proof -
  have inj: "inj_on server_id (set db)"
    using assms(1) by (simp add: distinct_map)
  have "\<not> selected q t" if t: "t \<in> set db" for t
  proof
    assume sel: "selected q t"
    with assms(3) have "server_id t = server_id s"
      by (simp add: selected_def)
    with inj have "t = s"
      using t assms(2) by (rule inj_onD)
    with sel assms(4) show False by simp
  qed
  then have "filter (selected q) db = []"
    by (simp add: filter_empty_conv)
  then show ?thesis
    by (simp add: fetch_def split: option.split)
qed


subsection \<open>The quantity restriction\<close>

text \<open>
  Claim C3: for every request with \<^verbatim>\<open>qty=N\<close>, \<^verbatim>\<open>N\<close> a numeric string, that succeeds, the
  returned list has at most \<^verbatim>\<open>N\<close> objects and is the first \<^verbatim>\<open>N\<close> elements of the list that
  the same request without \<^verbatim>\<open>qty\<close> returns, which is the result of all the other filters
  (category, \<^verbatim>\<open>by_user\<close>, \<^verbatim>\<open>by_serverid\<close>): the bound is on the filtered set.
\<close>

theorem qty_truncates_filtered:
  assumes "query_params request ''qty'' = Some n" and "py_int n = Some k"
      and "ServerListViewSet_list db request = Inr data"
  shows "0 \<le> k \<and> int (length data) \<le> k \<and>
         (\<exists>rest. ServerListViewSet_list db (without_qty request) = Inr rest \<and>
                 data = take (nat k) rest)"
proof -
  from assms(3) obtain q where q: "filtered_queryset db request = Inr q"
    by (rule handler_succeeds_filtered)
  have k: "0 \<le> k"
  proof (rule ccontr)
    assume "\<not> 0 \<le> k"
    then have "ServerListViewSet_list db request = Inl NegativeIndexing"
      using handler_qty_negative [OF q assms(1,2)] by simp
    with assms(3) show False by simp
  qed
  let ?ser = "ServerSerializer (query_params request ''with_num_members'' = Some ''true'')"
  have data: "data = take (nat k) (map ?ser (fetch db q))"
    using handler_qty [OF q assms(1,2) k] assms(3) by (simp add: take_map)
  have rest: "ServerListViewSet_list db (without_qty request) = Inr (map ?ser (fetch db q))"
    using q by (rule handler_without_qty)
  have "int (length data) \<le> k"
    using data k by simp
  with k data rest show ?thesis
    by blast
qed

theorem qty_truncates_filtered_witness:
  "py_int ''1'' = Some 1 \<and>
   ServerListViewSet_list
     [\<lparr>server_id = 1, category_name = ''music'', member = []\<rparr>,
      \<lparr>server_id = 2, category_name = ''gaming'', member = [5]\<rparr>,
      \<lparr>server_id = 3, category_name = ''gaming'', member = []\<rparr>]
     \<lparr>query_params = [''category'' \<mapsto> ''gaming'', ''qty'' \<mapsto> ''1''], user = AnonymousUser\<rparr> =
   Inr [\<lparr>base_fields = \<lparr>server_id = 2, category_name = ''gaming'', member = [5]\<rparr>,
         data_num_members = None\<rparr>] \<and>
   (\<exists>rest.
      ServerListViewSet_list
        [\<lparr>server_id = 1, category_name = ''music'', member = []\<rparr>,
         \<lparr>server_id = 2, category_name = ''gaming'', member = [5]\<rparr>,
         \<lparr>server_id = 3, category_name = ''gaming'', member = []\<rparr>]
        (without_qty \<lparr>query_params = [''category'' \<mapsto> ''gaming'', ''qty'' \<mapsto> ''1''],
                       user = AnonymousUser\<rparr>) = Inr rest \<and>
      [\<lparr>base_fields = \<lparr>server_id = 2, category_name = ''gaming'', member = [5]\<rparr>,
        data_num_members = None\<rparr>] = take (nat 1) rest)"
proof -
  let ?db = "[\<lparr>server_id = 1, category_name = ''music'', member = []\<rparr>,
              \<lparr>server_id = 2, category_name = ''gaming'', member = [5]\<rparr>,
              \<lparr>server_id = 3, category_name = ''gaming'', member = []\<rparr>]"
  let ?r = "\<lparr>query_params = [''category'' \<mapsto> ''gaming'', ''qty'' \<mapsto> ''1''], user = AnonymousUser\<rparr>"
  let ?data = "[\<lparr>base_fields = \<lparr>server_id = 2, category_name = ''gaming'', member = [5]\<rparr>,
                 data_num_members = None\<rparr>]"
  have h1: "query_params ?r ''qty'' = Some ''1''" by simp
  have h2: "py_int ''1'' = Some 1" by (simp add: eval_defs)
  have h3: "ServerListViewSet_list ?db ?r = Inr ?data" by (simp add: eval_defs)
  from qty_truncates_filtered [OF h1 h2 h3] h2 h3 show ?thesis
    by simp
qed

text \<open>
  A string that \<^verbatim>\<open>int\<close> rejects, or a negative number, in \<^verbatim>\<open>qty\<close> is reached only by a
  request that has passed the checks before it: an anonymous request by user fails with
  the authentication error whatever \<^verbatim>\<open>qty\<close> holds.
\<close>

theorem malformed_qty_anonymous_by_user:
  "py_int ''abc'' = None \<and>
   ServerListViewSet_list
     [\<lparr>server_id = 1, category_name = ''gaming'', member = [1]\<rparr>]
     \<lparr>query_params = [''qty'' \<mapsto> ''abc'', ''by_user'' \<mapsto> ''true''], user = AnonymousUser\<rparr> =
   Inl AuthenticationFailed \<and>
   \<not> unhandled AuthenticationFailed"
  by (simp add: eval_defs)

text \<open>
  Claim C8, as amended: for every request in which \<^verbatim>\<open>qty\<close> is supplied with a string that is
  not empty and that \<^verbatim>\<open>int\<close> rejects, and that raises nothing before the quantity
  restriction (the same request without \<^verbatim>\<open>qty\<close> succeeds), the handler raises the
  \<^verbatim>\<open>ValueError\<close> of the parse, which nothing handles: it returns no response and no
  validation error.
\<close>

theorem malformed_qty_unhandled:
  assumes "query_params request ''qty'' = Some n" and "n \<noteq> []" and "py_int n = None"
      and "ServerListViewSet_list db (without_qty request) = Inr rest"
  shows "ServerListViewSet_list db request = Inl ValueError \<and> unhandled ValueError"
proof -
  from assms(4) obtain q where "filtered_queryset db (without_qty request) = Inr q"
    by (rule handler_succeeds_filtered)
  then have "filtered_queryset db request = Inr q"
    by (simp add: filtered_without_qty)
  then show ?thesis
    using assms(1-3) by (simp add: handler_qty_value_error)
qed

theorem malformed_qty_unhandled_witness:
  "py_int ''two'' = None \<and>
   ServerListViewSet_list
     [\<lparr>server_id = 1, category_name = ''gaming'', member = [1]\<rparr>]
     (without_qty \<lparr>query_params = [''qty'' \<mapsto> ''two''], user = AnonymousUser\<rparr>) =
   Inr [\<lparr>base_fields = \<lparr>server_id = 1, category_name = ''gaming'', member = [1]\<rparr>,
         data_num_members = None\<rparr>] \<and>
   ServerListViewSet_list
     [\<lparr>server_id = 1, category_name = ''gaming'', member = [1]\<rparr>]
     \<lparr>query_params = [''qty'' \<mapsto> ''two''], user = AnonymousUser\<rparr> = Inl ValueError"
proof -
  let ?db = "[\<lparr>server_id = 1, category_name = ''gaming'', member = [1]\<rparr>]"
  let ?r = "\<lparr>query_params = [''qty'' \<mapsto> ''two''], user = AnonymousUser\<rparr>"
  let ?rest = "[\<lparr>base_fields = \<lparr>server_id = 1, category_name = ''gaming'', member = [1]\<rparr>,
                 data_num_members = None\<rparr>]"
  have h1: "query_params ?r ''qty'' = Some ''two''" by simp
  have h2: "''two'' \<noteq> []" by simp
  have h3: "py_int ''two'' = None" by (simp add: eval_defs)
  have h4: "ServerListViewSet_list ?db (without_qty ?r) = Inr ?rest" by (simp add: eval_defs)
  from malformed_qty_unhandled [OF h1 h2 h3 h4] h3 h4 show ?thesis
    by simp
qed

theorem negative_qty_anonymous_by_user:
  "py_int ''-1'' = Some (- 1) \<and>
   ServerListViewSet_list
     [\<lparr>server_id = 1, category_name = ''gaming'', member = [1]\<rparr>]
     \<lparr>query_params = [''qty'' \<mapsto> ''-1'', ''by_user'' \<mapsto> ''true''], user = AnonymousUser\<rparr> =
   Inl AuthenticationFailed \<and>
   \<not> unhandled AuthenticationFailed"
  by (simp add: eval_defs)

text \<open>
  Claim C10, as amended: for every request in which \<^verbatim>\<open>qty\<close> parses to a negative integer,
  and that raises nothing before the quantity restriction (the same request without
  \<^verbatim>\<open>qty\<close> succeeds), the handler raises the error of the negative slice bound, which
  nothing handles, so no response is returned.
\<close>

theorem negative_qty_unhandled:
  assumes "query_params request ''qty'' = Some n" and "py_int n = Some k" and "k < 0"
      and "ServerListViewSet_list db (without_qty request) = Inr rest"
  shows "ServerListViewSet_list db request = Inl NegativeIndexing \<and> unhandled NegativeIndexing"
proof -
  from assms(4) obtain q where "filtered_queryset db (without_qty request) = Inr q"
    by (rule handler_succeeds_filtered)
  then have "filtered_queryset db request = Inr q"
    by (simp add: filtered_without_qty)
  then show ?thesis
    using assms(1-3) by (simp add: handler_qty_negative)
qed

theorem negative_qty_unhandled_witness:
  "py_int ''-3'' = Some (- 3) \<and>
   ServerListViewSet_list
     [\<lparr>server_id = 1, category_name = ''gaming'', member = [1]\<rparr>]
     (without_qty \<lparr>query_params = [''qty'' \<mapsto> ''-3''], user = User 1\<rparr>) =
   Inr [\<lparr>base_fields = \<lparr>server_id = 1, category_name = ''gaming'', member = [1]\<rparr>,
         data_num_members = None\<rparr>] \<and>
   ServerListViewSet_list
     [\<lparr>server_id = 1, category_name = ''gaming'', member = [1]\<rparr>]
     \<lparr>query_params = [''qty'' \<mapsto> ''-3''], user = User 1\<rparr> = Inl NegativeIndexing"
proof -
  let ?db = "[\<lparr>server_id = 1, category_name = ''gaming'', member = [1]\<rparr>]"
  let ?r = "\<lparr>query_params = [''qty'' \<mapsto> ''-3''], user = User 1\<rparr>"
  let ?rest = "[\<lparr>base_fields = \<lparr>server_id = 1, category_name = ''gaming'', member = [1]\<rparr>,
                 data_num_members = None\<rparr>]"
  have h1: "query_params ?r ''qty'' = Some ''-3''" by simp
  have h2: "py_int ''-3'' = Some (- 3)" by (simp add: eval_defs)
  have h3: "(- 3 :: int) < 0" by simp
  have h4: "ServerListViewSet_list ?db (without_qty ?r) = Inr ?rest" by (simp add: eval_defs)
  from negative_qty_unhandled [OF h1 h2 h3 h4] h2 h4 show ?thesis
    by simp
qed


subsection \<open>The existence check works on the filtered queryset\<close>

text \<open>
  Claim C9: the existence check of \<^verbatim>\<open>by_serverid\<close> runs on the queryset that the earlier
  filters have narrowed. For every authenticated request where \<^verbatim>\<open>by_serverid\<close> names a
  server of the store (ids are the primary key) that an earlier filter excludes, by a
  category that is not the server's or by \<^verbatim>\<open>by_user=true\<close> when the identity is no member
  of it, the handler raises the validation error "Could not find server with ID" followed
  by the value of the parameter; it does not return an empty list.
\<close>

theorem existence_checked_after_filters:
  assumes "user request = User uid"
      and "query_params request ''by_serverid'' = Some v" and "py_int v = Some i"
      and "distinct (map server_id db)" and "s \<in> set db" and "server_id s = i"
      and "(\<exists>c. query_params request ''category'' = Some c \<and> c \<noteq> [] \<and> category_name s \<noteq> c) \<or>
           (query_params request ''by_user'' = Some ''true'' \<and> uid \<notin> set (member s))"
  shows "ServerListViewSet_list db request =
           Inl (ValidationError (''Could not find server with ID '' @ v))"
proof (cases "filtered_queryset db request")
  case (Inl e)
  have "is_authenticated (user request)"
    using assms(1) by simp
  with Inl have "e = ValidationError (''Could not find server with ID '' @ v)"
    using assms(2,3) by (rule filtered_queryset_not_found)
  with Inl show ?thesis
    by (simp add: handler_raises_early)
next
  case (Inr q)
  have v: "truthy (query_params request ''by_serverid'')"
    using assms(2) py_int_truthy [OF assms(3)] by simp
  have "where_id q = Some (server_id s)"
    using filtered_queryset_fields(4) [OF Inr] v assms(2,3,6) by simp
  moreover have "\<not> selected q s"
    using assms(7)
  proof
    assume "\<exists>c. query_params request ''category'' = Some c \<and> c \<noteq> [] \<and> category_name s \<noteq> c"
    then obtain c where "query_params request ''category'' = Some c" "c \<noteq> []" "category_name s \<noteq> c"
      by blast
    then show ?thesis
      using filtered_queryset_fields(2) [OF Inr] by (simp add: selected_def)
  next
    assume "query_params request ''by_user'' = Some ''true'' \<and> uid \<notin> set (member s)"
    then show ?thesis
      using filtered_queryset_fields(3) [OF Inr] assms(1) by (simp add: selected_def)
  qed
  ultimately have "fetch db q = []"
    using assms(4,5) by (simp add: no_rows_for_excluded)
  with filtered_queryset_exists [OF Inr v] show ?thesis
    by simp
qed

theorem existence_checked_after_filters_witness:
  "py_int ''2'' = Some 2 \<and>
   ServerListViewSet_list
     [\<lparr>server_id = 1, category_name = ''gaming'', member = [7]\<rparr>,
      \<lparr>server_id = 2, category_name = ''music'', member = [7]\<rparr>]
     \<lparr>query_params = [''by_serverid'' \<mapsto> ''2'', ''category'' \<mapsto> ''gaming''], user = User 7\<rparr> =
   Inl (ValidationError ''Could not find server with ID 2'')"
proof -
  let ?s = "\<lparr>server_id = 2, category_name = ''music'', member = [7]\<rparr>"
  let ?db = "[\<lparr>server_id = 1, category_name = ''gaming'', member = [7]\<rparr>, ?s]"
  let ?r = "\<lparr>query_params = [''by_serverid'' \<mapsto> ''2'', ''category'' \<mapsto> ''gaming''], user = User 7\<rparr>"
  have h1: "user ?r = User 7" by simp
  have h2: "query_params ?r ''by_serverid'' = Some ''2''" by simp
  have h3: "py_int ''2'' = Some 2" by (simp add: eval_defs)
  have h4: "distinct (map server_id ?db)" by simp
  have h5: "?s \<in> set ?db" by simp
  have h6: "server_id ?s = 2" by simp
  have h7: "(\<exists>c. query_params ?r ''category'' = Some c \<and> c \<noteq> [] \<and> category_name ?s \<noteq> c) \<or>
            (query_params ?r ''by_user'' = Some ''true'' \<and> 7 \<notin> set (member ?s))"
    by simp
  from existence_checked_after_filters [OF h1 h2 h3 h4 h5 h6 h7] h3 show ?thesis
    by simp
qed


subsection \<open>What a successful request lists\<close>

lemma serialized_row:
  "ServerSerializer w (annotated q s) =
     \<lparr>base_fields = s,
      data_num_members =
        (if w then map_option (\<lambda>j. length (joined j s)) (num_members_over q) else None)\<rparr>"
  by (simp add: ServerSerializer_def annotated_def)

lemma base_fields_serialized:
  "map base_fields (map (ServerSerializer w) (map (annotated q) xs)) = xs"
  by (induction xs) (simp_all add: serialized_row)

subsection \<open>Servers of the requesting user\<close>

lemma by_user_selected:
  assumes "query_params request ''by_user'' = Some ''true''"
      and "user request = User uid"
      and "filtered_queryset db request = Inr q"
  shows "selected q s \<longleftrightarrow>
           uid \<in> set (member s) \<and>
           (truthy (query_params request ''category'') \<longrightarrow>
              query_params request ''category'' = Some (category_name s)) \<and>
           (case where_id q of None \<Rightarrow> True | Some i \<Rightarrow> server_id s = i)"
proof -
  note f = filtered_queryset_fields [OF assms(3)]
  have "where_member q = Some uid"
    using f(3) assms(1,2) by simp
  with f(2) show ?thesis
    by (cases "query_params request ''category''") (auto simp: selected_def)
qed

lemma by_user_result_members:
  assumes "query_params request ''by_user'' = Some ''true''"
      and "user request = User uid"
      and "ServerListViewSet_list db request = Inr data" and "d \<in> set data"
  shows "base_fields d \<in> set db \<and> uid \<in> set (member (base_fields d)) \<and>
         (truthy (query_params request ''category'') \<longrightarrow>
            query_params request ''category'' = Some (category_name (base_fields d)))"
proof -
  let ?w = "query_params request ''with_num_members'' = Some ''true''"
  from assms(3) obtain q where q: "filtered_queryset db request = Inr q"
    by (rule handler_succeeds_filtered)
  from handler_result_prefix [OF assms(3) q] obtain m where
    "data = take m (map (ServerSerializer ?w) (map (annotated q) (filter (selected q) db)))" ..
  with assms(4)
  have "d \<in> set (map (ServerSerializer ?w) (map (annotated q) (filter (selected q) db)))"
    by (auto dest: in_set_takeD)
  then obtain s where s: "s \<in> set db" "selected q s" and "d = ServerSerializer ?w (annotated q s)"
    by auto
  then have "base_fields d = s"
    by (simp add: serialized_row)
  with s by_user_selected [OF assms(1,2) q, of s] show ?thesis
    by simp
qed

lemma by_user_result_all:
  assumes "query_params request ''by_user'' = Some ''true''"
      and "user request = User uid"
      and "\<not> truthy (query_params request ''by_serverid'')"
      and "\<not> truthy (query_params request ''qty'')"
  shows "\<exists>data. ServerListViewSet_list db request = Inr data \<and>
           map base_fields data =
             filter (\<lambda>s. uid \<in> set (member s) \<and>
                          (truthy (query_params request ''category'') \<longrightarrow>
                             query_params request ''category'' = Some (category_name s)))
               db"
proof -
  let ?w = "query_params request ''with_num_members'' = Some ''true''"
  have "\<exists>q. filtered_queryset db request = Inr q"
    using assms(1-3)
    by (cases "query_params request ''by_serverid''")
      (simp_all add: filtered_queryset_def Let_def)
  then obtain q where q: "filtered_queryset db request = Inr q" ..
  note f = filtered_queryset_fields [OF q]
  let ?data = "map (ServerSerializer ?w) (map (annotated q) (filter (selected q) db))"
  have "where_id q = None"
    using f(4) assms(3) by simp
  then have "filter (selected q) db =
               filter (\<lambda>s. uid \<in> set (member s) \<and>
                            (truthy (query_params request ''category'') \<longrightarrow>
                               query_params request ''category'' = Some (category_name s)))
                 db"
    using by_user_selected [OF assms(1,2) q] by (simp cong: filter_cong)
  moreover have "map base_fields ?data = filter (selected q) db"
    by (rule base_fields_serialized)
  moreover have "ServerListViewSet_list db request = Inr ?data"
    using handler_no_qty [OF q assms(4)] f(1) by (simp add: fetch_unsliced)
  ultimately show ?thesis
    by (intro exI [of _ ?data]) (simp only: simp_thms)
qed


text \<open>
  With \<^verbatim>\<open>by_user=true\<close> the slice still applies: of two servers that both have the user as
  a member, a request with \<^verbatim>\<open>qty=1\<close> returns the first only, so the list is not the set of
  all the servers of the user.
\<close>

theorem by_user_with_qty_omits_member_server:
  "ServerListViewSet_list
     [\<lparr>server_id = 1, category_name = ''gaming'', member = [7]\<rparr>,
      \<lparr>server_id = 2, category_name = ''music'', member = [7, 8]\<rparr>]
     \<lparr>query_params = [''by_user'' \<mapsto> ''true'', ''qty'' \<mapsto> ''1''], user = User 7\<rparr> =
   Inr [\<lparr>base_fields = \<lparr>server_id = 1, category_name = ''gaming'', member = [7]\<rparr>,
         data_num_members = None\<rparr>] \<and>
   7 \<in> set (member \<lparr>server_id = 2, category_name = ''music'', member = [7, 8]\<rparr>) \<and>
   \<lparr>server_id = 2, category_name = ''music'', member = [7, 8]\<rparr> \<notin>
     base_fields `
       set [\<lparr>base_fields = \<lparr>server_id = 1, category_name = ''gaming'', member = [7]\<rparr>,
             data_num_members = None\<rparr>]"
  by (simp add: eval_defs)

text \<open>
  Claim C6, as amended: for every request with \<^verbatim>\<open>by_user=true\<close> made by an authenticated
  identity, every server of a returned list is a server of the store whose membership
  includes that identity and whose category is the supplied one, if a category is
  supplied; and when neither \<^verbatim>\<open>by_serverid\<close> nor \<^verbatim>\<open>qty\<close> is supplied, the request succeeds and
  the list holds exactly those servers, in the order of the store.
\<close>

theorem by_user_lists_member_servers:
  assumes "query_params request ''by_user'' = Some ''true''"
      and "user request = User uid"
  shows "(\<forall>data. ServerListViewSet_list db request = Inr data \<longrightarrow>
            (\<forall>d \<in> set data.
               base_fields d \<in> set db \<and> uid \<in> set (member (base_fields d)) \<and>
               (truthy (query_params request ''category'') \<longrightarrow>
                  query_params request ''category'' = Some (category_name (base_fields d))))) \<and>
         (\<not> truthy (query_params request ''by_serverid'') \<and>
          \<not> truthy (query_params request ''qty'') \<longrightarrow>
            (\<exists>data. ServerListViewSet_list db request = Inr data \<and>
                    map base_fields data =
                      filter (\<lambda>s. uid \<in> set (member s) \<and>
                                   (truthy (query_params request ''category'') \<longrightarrow>
                                      query_params request ''category'' = Some (category_name s)))
                        db))"
  using by_user_result_members [OF assms] by_user_result_all [OF assms]
  by blast

theorem by_user_lists_member_servers_witness:
  "\<exists>data.
     ServerListViewSet_list
       [\<lparr>server_id = 1, category_name = ''gaming'', member = [7]\<rparr>,
        \<lparr>server_id = 2, category_name = ''gaming'', member = [8]\<rparr>,
        \<lparr>server_id = 3, category_name = ''music'', member = [7, 8]\<rparr>,
        \<lparr>server_id = 4, category_name = ''gaming'', member = [8, 7]\<rparr>]
       \<lparr>query_params = [''by_user'' \<mapsto> ''true'', ''category'' \<mapsto> ''gaming''], user = User 7\<rparr> =
     Inr data \<and>
     map base_fields data =
       [\<lparr>server_id = 1, category_name = ''gaming'', member = [7]\<rparr>,
        \<lparr>server_id = 4, category_name = ''gaming'', member = [8, 7]\<rparr>]"
proof -
  let ?db = "[\<lparr>server_id = 1, category_name = ''gaming'', member = [7]\<rparr>,
              \<lparr>server_id = 2, category_name = ''gaming'', member = [8]\<rparr>,
              \<lparr>server_id = 3, category_name = ''music'', member = [7, 8]\<rparr>,
              \<lparr>server_id = 4, category_name = ''gaming'', member = [8, 7]\<rparr>]"
  let ?r = "\<lparr>query_params = [''by_user'' \<mapsto> ''true'', ''category'' \<mapsto> ''gaming''], user = User 7\<rparr>"
  have h1: "query_params ?r ''by_user'' = Some ''true''" by simp
  have h2: "user ?r = User 7" by simp
  have h3: "\<not> truthy (query_params ?r ''by_serverid'') \<and> \<not> truthy (query_params ?r ''qty'')"
    by simp
  note t = by_user_lists_member_servers [OF h1 h2, of ?db, THEN conjunct2, rule_format, OF h3]
  from t show ?thesis
    by simp
qed

subsection \<open>The member count\<close>

lemma num_members_of_by_user_request:
  assumes "query_params request ''by_user'' = Some ''true''"
      and "user request = User uid"
      and "query_params request ''with_num_members'' = Some ''true''"
      and "ServerListViewSet_list db request = Inr data" and "d \<in> set data"
  shows "data_num_members d = Some (length (filter (\<lambda>m. m = uid) (member (base_fields d))))"
proof -
  from assms(4) obtain q where q: "filtered_queryset db request = Inr q"
    by (rule handler_succeeds_filtered)
  note f = filtered_queryset_fields [OF q]
  have "where_member q = Some uid"
    using f(3) assms(1,2) by simp
  then have over: "num_members_over q = Some (MemberIs uid)"
    using f(5) assms(3) by simp
  from handler_result_prefix [OF assms(4) q] obtain m where
    "data = take m (map (ServerSerializer True) (map (annotated q) (filter (selected q) db)))"
    using assms(3) by auto
  with assms(5) have "d \<in> set (map (ServerSerializer True) (map (annotated q) (filter (selected q) db)))"
    by (auto dest: in_set_takeD)
  then obtain s where "d = ServerSerializer True (annotated q s)"
    by auto
  then show ?thesis
    using over by (simp add: serialized_row)
qed

lemma num_members_of_by_user_request_is_one:
  assumes "query_params request ''by_user'' = Some ''true''"
      and "user request = User uid"
      and "query_params request ''with_num_members'' = Some ''true''"
      and "ServerListViewSet_list db request = Inr data" and "d \<in> set data"
      and "distinct (member (base_fields d))"
  shows "data_num_members d = Some 1"
proof -
  have "uid \<in> set (member (base_fields d))"
    using by_user_result_members [OF assms(1,2,4,5)] by simp
  with assms(6) have "length (filter (\<lambda>m. m = uid) (member (base_fields d))) = 1"
    by (simp add: distinct_length_filter)
  with num_members_of_by_user_request [OF assms(1-5)] show ?thesis
    by simp
qed

text \<open>
  Claim C2 at a request where it fails. Server 1 has the two members 1 and 2. The request
  of user 1 with \<^verbatim>\<open>by_user=true\<close> and \<^verbatim>\<open>with_num_members=true\<close> returns the server with
  \<^verbatim>\<open>num_members\<close> 1: the count runs over the membership rows that the filter by user has
  left in the join. The same request without \<^verbatim>\<open>by_user\<close> returns it with \<^verbatim>\<open>num_members\<close> 2.
\<close>

theorem num_members_under_by_user:
  "ServerListViewSet_list
     [\<lparr>server_id = 1, category_name = ''gaming'', member = [1, 2]\<rparr>]
     \<lparr>query_params = [''by_user'' \<mapsto> ''true'', ''with_num_members'' \<mapsto> ''true''],
      user = User 1\<rparr> =
   Inr [\<lparr>base_fields = \<lparr>server_id = 1, category_name = ''gaming'', member = [1, 2]\<rparr>,
         data_num_members = Some 1\<rparr>] \<and>
   length (member \<lparr>server_id = 1, category_name = ''gaming'', member = [1, 2]\<rparr>) = 2 \<and>
   ServerListViewSet_list
     [\<lparr>server_id = 1, category_name = ''gaming'', member = [1, 2]\<rparr>]
     \<lparr>query_params = [''with_num_members'' \<mapsto> ''true''], user = User 1\<rparr> =
   Inr [\<lparr>base_fields = \<lparr>server_id = 1, category_name = ''gaming'', member = [1, 2]\<rparr>,
         data_num_members = Some 2\<rparr>]"
  by (simp add: eval_defs)

subsection \<open>Requests without filters in a running process\<close>

lemma in_process_queries_store:
  assumes "result_cache = None \<or> \<not> uses_class_queryset request"
  shows "fst (ServerListViewSet_list_in_process result_cache db request) =
           ServerListViewSet_list db request"
  using assms by (auto simp: ServerListViewSet_list_in_process_def)

lemma in_process_answers_from_rows:
  assumes "uses_class_queryset request"
  shows "ServerListViewSet_list_in_process (Some rows) db request =
           (ServerListViewSet_list rows request, Some rows)"
  using assms by (simp add: ServerListViewSet_list_in_process_def)

text \<open>
  Claim C7 at a sequence of requests where it fails. The claim has a request without
  \<^verbatim>\<open>by_user\<close> and \<^verbatim>\<open>by_serverid\<close> return the full set of servers. In a new process the
  store holds server 1, and a request without parameters returns it; the shared queryset
  now holds that row. Server 2 is added to the store. The same request returns server 1
  alone, and with \<^verbatim>\<open>qty=5\<close> it returns server 1 alone as well, while a request with
  \<^verbatim>\<open>category=gaming\<close>, which filters, returns both servers.
\<close>

theorem unfiltered_listing_is_stale:
  "ServerListViewSet_list_in_process None
     [\<lparr>server_id = 1, category_name = ''gaming'', member = [1]\<rparr>]
     \<lparr>query_params = Map.empty, user = AnonymousUser\<rparr> =
   (Inr [\<lparr>base_fields = \<lparr>server_id = 1, category_name = ''gaming'', member = [1]\<rparr>,
          data_num_members = None\<rparr>],
    Some [\<lparr>server_id = 1, category_name = ''gaming'', member = [1]\<rparr>]) \<and>
   ServerListViewSet_list_in_process
     (Some [\<lparr>server_id = 1, category_name = ''gaming'', member = [1]\<rparr>])
     [\<lparr>server_id = 1, category_name = ''gaming'', member = [1]\<rparr>,
      \<lparr>server_id = 2, category_name = ''gaming'', member = []\<rparr>]
     \<lparr>query_params = Map.empty, user = AnonymousUser\<rparr> =
   (Inr [\<lparr>base_fields = \<lparr>server_id = 1, category_name = ''gaming'', member = [1]\<rparr>,
          data_num_members = None\<rparr>],
    Some [\<lparr>server_id = 1, category_name = ''gaming'', member = [1]\<rparr>]) \<and>
   ServerListViewSet_list_in_process
     (Some [\<lparr>server_id = 1, category_name = ''gaming'', member = [1]\<rparr>])
     [\<lparr>server_id = 1, category_name = ''gaming'', member = [1]\<rparr>,
      \<lparr>server_id = 2, category_name = ''gaming'', member = []\<rparr>]
     \<lparr>query_params = [''qty'' \<mapsto> ''5''], user = AnonymousUser\<rparr> =
   (Inr [\<lparr>base_fields = \<lparr>server_id = 1, category_name = ''gaming'', member = [1]\<rparr>,
          data_num_members = None\<rparr>],
    Some [\<lparr>server_id = 1, category_name = ''gaming'', member = [1]\<rparr>]) \<and>
   ServerListViewSet_list_in_process
     (Some [\<lparr>server_id = 1, category_name = ''gaming'', member = [1]\<rparr>])
     [\<lparr>server_id = 1, category_name = ''gaming'', member = [1]\<rparr>,
      \<lparr>server_id = 2, category_name = ''gaming'', member = []\<rparr>]
     \<lparr>query_params = [''category'' \<mapsto> ''gaming''], user = AnonymousUser\<rparr> =
   (Inr [\<lparr>base_fields = \<lparr>server_id = 1, category_name = ''gaming'', member = [1]\<rparr>,
          data_num_members = None\<rparr>,
         \<lparr>base_fields = \<lparr>server_id = 2, category_name = ''gaming'', member = []\<rparr>,
          data_num_members = None\<rparr>],
    Some [\<lparr>server_id = 1, category_name = ''gaming'', member = [1]\<rparr>])"
  by (simp add: ServerListViewSet_list_in_process_def uses_class_queryset_def eval_defs)

end
